theory Spec2Isabelle
  imports Complex_Main "HOL-Library.Multiset"
begin

section \<open>Numbers and vectors\<close>

text \<open>
  JavaScript numbers are modelled as mathematical reals: rounding, infinities and NaN of
  IEEE doubles are outside the model, except where the source itself produces a NaN
  from a missing property (the cover hysteresis below), which is modelled explicitly.

  \<open>THREE.Vector3\<close> is a library type; the operations the AI code calls on it are
  written out here with the library's meaning. The fields are called \<open>vx\<close>,
  \<open>vy\<close>, \<open>vz\<close> (for the library's \<open>x\<close>, \<open>y\<close>, \<open>z\<close>).
\<close>

record Vector3 =
  vx :: real
  vy :: real
  vz :: real

definition vec :: "real \<Rightarrow> real \<Rightarrow> real \<Rightarrow> Vector3" where
  "vec a b c = \<lparr>vx = a, vy = b, vz = c\<rparr>"

definition subVectors :: "Vector3 \<Rightarrow> Vector3 \<Rightarrow> Vector3" where
  "subVectors a b = vec (vx a - vx b) (vy a - vy b) (vz a - vz b)"

definition addVectors :: "Vector3 \<Rightarrow> Vector3 \<Rightarrow> Vector3" where
  "addVectors a b = vec (vx a + vx b) (vy a + vy b) (vz a + vz b)"

definition multiplyScalar :: "Vector3 \<Rightarrow> real \<Rightarrow> Vector3" where
  "multiplyScalar v s = vec (vx v * s) (vy v * s) (vz v * s)"

definition addScaledVector :: "Vector3 \<Rightarrow> Vector3 \<Rightarrow> real \<Rightarrow> Vector3" where
  "addScaledVector p v s = vec (vx p + vx v * s) (vy p + vy v * s) (vz p + vz v * s)"

definition dot :: "Vector3 \<Rightarrow> Vector3 \<Rightarrow> real" where
  "dot a b = vx a * vx b + vy a * vy b + vz a * vz b"

definition lengthSq :: "Vector3 \<Rightarrow> real" where
  "lengthSq v = vx v * vx v + vy v * vy v + vz v * vz v"

definition vlength :: "Vector3 \<Rightarrow> real" where
  "vlength v = sqrt (lengthSq v)"

text \<open>\<open>normalize\<close> divides by \<open>length() || 1\<close>: the zero vector stays zero.\<close>

definition normalize :: "Vector3 \<Rightarrow> Vector3" where
  "normalize v =
     (let l = (if vlength v = 0 then 1 else vlength v)
      in vec (vx v / l) (vy v / l) (vz v / l))"

definition distanceTo :: "Vector3 \<Rightarrow> Vector3 \<Rightarrow> real" where
  "distanceTo a b = vlength (subVectors a b)"

definition clamp :: "real \<Rightarrow> real \<Rightarrow> real \<Rightarrow> real" where
  "clamp v lo hi = max lo (min hi v)"

text \<open>
  \<open>angleTo\<close>: \<open>\<pi>/2\<close> when either vector is zero, else the arc cosine of the
  clamped normalised dot product.
\<close>

definition angleTo :: "Vector3 \<Rightarrow> Vector3 \<Rightarrow> real" where
  "angleTo a b =
     (let denominator = sqrt (lengthSq a * lengthSq b)
      in if denominator = 0 then pi / 2
         else arccos (clamp (dot a b / denominator) (- 1) 1))"

text \<open>\<open>Math.atan2\<close> (signed zeros apart) and \<open>MathUtils.lerp\<close>.\<close>

definition atan2 :: "real \<Rightarrow> real \<Rightarrow> real" where
  "atan2 b a =
     (if a > 0 then arctan (b / a)
      else if a < 0 \<and> b \<ge> 0 then arctan (b / a) + pi
      else if a < 0 then arctan (b / a) - pi
      else if b > 0 then pi / 2
      else if b < 0 then - (pi / 2)
      else 0)"

definition lerp :: "real \<Rightarrow> real \<Rightarrow> real \<Rightarrow> real" where
  "lerp a b t = (1 - t) * a + t * b"

record Euler =
  ex :: real
  ey :: real
  ez :: real

section \<open>Data model\<close>

text \<open>
  Modelled from the spec: the enum \<open>AIState\<close> is declared in \<open>core/constants.ts\<close>,
  which is not among the sources; the spec gives its members as
  IDLE, PATROL, ALERT, CHASE, COMBAT, COVER, RETREAT, DEAD.
\<close>

datatype AIState = IDLE | PATROL | ALERT | CHASE | COMBAT | COVER | RETREAT | DEAD

datatype CoverType = LOW | HIGH | DYNAMIC | ENERGY

text \<open>
  \<open>CoverSpot\<close> (CoverSystem.ts). Fields that share a name with a field of the agent
  carry the prefix \<open>cs_\<close>; the optional \<open>health\<close> is an option.
\<close>

record CoverSpot =
  cs_id :: string
  cs_position :: Vector3
  quality :: real
  coverType :: CoverType
  directions :: "Vector3 list"
  height :: real
  isDynamic :: bool
  cs_health :: "real option"

record CoverState =
  currentCover :: "CoverSpot option"
  targetCover :: "CoverSpot option"
  isMovingToCover :: bool
  coverTimer :: real
  retreatHealthThreshold :: real

record PerceptionResult =
  hasLineOfSight :: bool
  visiblePosition :: "Vector3 option"
  distanceToTarget :: real
  angleToTarget :: real
  canHear :: bool
  hearingSensitivity :: real
  isTakingDamage :: bool
  res_lastDamagePosition :: "Vector3 option"
  res_lastDamageTime :: real
  timeSinceLastSeen :: real
  timeSinceLastHeard :: real

record PerceptionConfig =
  viewDistance :: real
  viewAngle :: real
  peripheralAngle :: real
  hearingRange :: real
  alertHearingRange :: real
  perceptionCooldown :: real
  memoryDuration :: real

definition DEFAULT_PERCEPTION_CONFIG :: PerceptionConfig where
  "DEFAULT_PERCEPTION_CONFIG =
     \<lparr>viewDistance = 30, viewAngle = pi / 2, peripheralAngle = pi * 0.8,
      hearingRange = 20, alertHearingRange = 30, perceptionCooldown = 100,
      memoryDuration = 3000\<rparr>"

text \<open>
  \<open>AICharacter\<close> (AICharacter.ts). \<open>eid\<close> and \<open>etype\<close> are the source's
  \<open>id\<close> and \<open>type\<close>; \<open>hasBehaviorTree\<close> says whether \<open>behaviorTree\<close> is
  non-null (BehaviorTree.ts is not among the sources). The scratch objects
  \<open>tempVector\<close> and \<open>tempQuaternion\<close> are always written before they are read and
  are local values in the model.
\<close>

record AICharacter =
  eid :: string
  name :: string
  etype :: string
  position :: Vector3
  rotation :: Euler
  velocity :: Vector3
  health :: real
  maxHealth :: real
  armor :: real
  damage :: real
  state :: AIState
  isAlive :: bool
  isMoving :: bool
  isAttacking :: bool
  isInCover :: bool
  hasBehaviorTree :: bool
  perception :: "PerceptionResult option"
  perceptionConfig :: PerceptionConfig
  canUseCover :: bool
  coverState :: CoverState
  targetPosition :: Vector3
  alertTarget :: "Vector3 option"
  patrolPoints :: "Vector3 list"
  currentPatrolIndex :: nat
  lastAttackTime :: real
  attackCooldown :: real
  attackRange :: real

text \<open>
  The part of \<open>AIConfig\<close> the constructor reads (its \<open>movement\<close> block is never
  read), already merged over \<open>DEFAULT_AI_CONFIG\<close>. The default type is
  \<open>EnemyType.GRUNT\<close>, whose string value is declared in \<open>core/constants.ts\<close>
  (not among the sources); the AI code compares the type with \<open>'flanker'\<close>,
  \<open>'elite'\<close> and \<open>'soldier'\<close> only, and \<open>''grunt''\<close> stands for any other
  value.
\<close>

record AIConfig =
  cfg_type :: string
  cfg_health :: real
  cfg_armor :: real
  cfg_damage :: real
  cfg_hearingRange :: real
  cfg_viewAngle :: real
  cfg_viewDistance :: real

definition DEFAULT_AI_CONFIG :: AIConfig where
  "DEFAULT_AI_CONFIG =
     \<lparr>cfg_type = ''grunt'', cfg_health = 50, cfg_armor = 0, cfg_damage = 10,
      cfg_hearingRange = 20, cfg_viewAngle = pi / 2, cfg_viewDistance = 30\<rparr>"

definition newAICharacter :: "string \<Rightarrow> string \<Rightarrow> AIConfig \<Rightarrow> AICharacter" where
  "newAICharacter i n finalConfig =
     \<lparr>eid = i, name = n, etype = cfg_type finalConfig,
      position = vec 0 0 0, rotation = \<lparr>ex = 0, ey = 0, ez = 0\<rparr>, velocity = vec 0 0 0,
      health = cfg_health finalConfig, maxHealth = cfg_health finalConfig,
      armor = cfg_armor finalConfig, damage = cfg_damage finalConfig,
      state = IDLE, isAlive = True, isMoving = False, isAttacking = False,
      isInCover = False, hasBehaviorTree = False, perception = None,
      perceptionConfig = DEFAULT_PERCEPTION_CONFIG
        \<lparr>hearingRange := cfg_hearingRange finalConfig,
         viewAngle := cfg_viewAngle finalConfig,
         viewDistance := cfg_viewDistance finalConfig\<rparr>,
      canUseCover = False,
      coverState = \<lparr>currentCover = None, targetCover = None, isMovingToCover = False,
                    coverTimer = 0, retreatHealthThreshold = 0.3\<rparr>,
      targetPosition = vec 0 0 0, alertTarget = None, patrolPoints = [],
      currentPatrolIndex = 0, lastAttackTime = 0, attackCooldown = 1000,
      attackRange = 10\<rparr>"

section \<open>The agent (AICharacter.ts)\<close>

text \<open>\<open>moveToward(target, deltaTime, speed?)\<close>: \<open>speed || 2.0\<close> replaces a missing or zero speed.\<close>

definition moveToward :: "Vector3 \<Rightarrow> real \<Rightarrow> real option \<Rightarrow> AICharacter \<Rightarrow> AICharacter" where
  "moveToward target deltaTime speed e =
     (let tempVector = subVectors target (position e);
          distance = vlength tempVector
      in if distance < 0.5 then e\<lparr>velocity := vec 0 0 0\<rparr>
         else
           (let moveSpeed = (case speed of None \<Rightarrow> 2 | Some s \<Rightarrow> if s = 0 then 2 else s)
            in e\<lparr>velocity := multiplyScalar (normalize tempVector) moveSpeed\<rparr>))"

definition stopMoving :: "AICharacter \<Rightarrow> AICharacter" where
  "stopMoving e = e\<lparr>velocity := vec 0 0 0, isMoving := False\<rparr>"

definition rotateTowardTarget :: "real \<Rightarrow> AICharacter \<Rightarrow> AICharacter" where
  "rotateTowardTarget deltaTime e =
     (if lengthSq (targetPosition e) = 0 then e
      else
        (let d = subVectors (targetPosition e) (position e);
             tempVector = d\<lparr>vy := 0\<rparr>
         in if lengthSq tempVector < 0.01 then e
            else
              (let n = normalize tempVector
               in e\<lparr>rotation := (rotation e)
                      \<lparr>ey := lerp (ey (rotation e)) (atan2 (vx n) (vz n)) (deltaTime * 5)\<rparr>\<rparr>)))"

definition updateState :: "AICharacter \<Rightarrow> AICharacter" where
  "updateState e =
     (let speed = vlength (velocity e);
          e1 = e\<lparr>isMoving := speed > 0.1\<rparr>
      in if isInCover e1 then e1\<lparr>state := COVER\<rparr>
         else if (case perception e1 of None \<Rightarrow> False | Some p \<Rightarrow> hasLineOfSight p)
           then e1\<lparr>state := COMBAT\<rparr>
         else if isMoving e1 then
           (if speed > 3 then e1\<lparr>state := CHASE\<rparr> else e1\<lparr>state := PATROL\<rparr>)
         else e1\<lparr>state := IDLE\<rparr>)"

definition update :: "real \<Rightarrow> AICharacter \<Rightarrow> AICharacter" where
  "update deltaTime e =
     (if \<not> isAlive e then e
      else
        (let e1 = e\<lparr>position := addScaledVector (position e) (velocity e) deltaTime\<rparr>;
             e2 = rotateTowardTarget deltaTime e1
         in updateState e2))"

definition updateBasic :: "real \<Rightarrow> AICharacter \<Rightarrow> AICharacter" where
  "updateBasic deltaTime e = e"

definition startPatrol :: "AICharacter \<Rightarrow> AICharacter" where
  "startPatrol e = (if patrolPoints e = [] then e else e\<lparr>currentPatrolIndex := 0\<rparr>)"

definition startRetreat :: "AICharacter \<Rightarrow> AICharacter" where
  "startRetreat e =
     (let tempVector = normalize (subVectors (position e) (targetPosition e))
      in e\<lparr>targetPosition := addScaledVector (position e) tempVector 20\<rparr>)"

definition transitionTo :: "AIState \<Rightarrow> AICharacter \<Rightarrow> AICharacter" where
  "transitionTo newState e =
     (if state e = newState then e
      else
        (let e1 = e\<lparr>state := newState\<rparr>
         in case newState of
              PATROL \<Rightarrow> startPatrol e1
            | CHASE \<Rightarrow> e1
            | COMBAT \<Rightarrow> e1\<lparr>isAttacking := True\<rparr>
            | RETREAT \<Rightarrow> startRetreat e1
            | _ \<Rightarrow> e1))"

definition setTargetCover :: "CoverSpot \<Rightarrow> AICharacter \<Rightarrow> AICharacter" where
  "setTargetCover cover e =
     e\<lparr>coverState := (coverState e)\<lparr>targetCover := Some cover, isMovingToCover := True\<rparr>,
       isInCover := False\<rparr>"

definition leaveCover :: "AICharacter \<Rightarrow> AICharacter" where
  "leaveCover e =
     e\<lparr>coverState := (coverState e)
          \<lparr>currentCover := None, targetCover := None, isMovingToCover := False\<rparr>,
       isInCover := False\<rparr>"

definition setAlertTarget :: "Vector3 \<Rightarrow> AICharacter \<Rightarrow> AICharacter" where
  "setAlertTarget pos e = e\<lparr>alertTarget := Some pos, targetPosition := pos\<rparr>"

text \<open>
  \<open>executeFlankManuver\<close> draws two numbers from \<open>Math.random()\<close>; they are the
  arguments \<open>r1\<close> and \<open>r2\<close>.
\<close>

definition executeFlankManuver :: "Vector3 \<Rightarrow> real \<Rightarrow> real \<Rightarrow> AICharacter \<Rightarrow> AICharacter" where
  "executeFlankManuver target r1 r2 e =
     (let offset = vec ((r1 - 0.5) * 20) 0 ((r2 - 0.5) * 20);
          e1 = e\<lparr>targetPosition := addVectors target offset\<rparr>
      in moveToward (targetPosition e1) 0.016 (Some 4.0) e1)"

definition getForwardDirection :: "AICharacter \<Rightarrow> Vector3" where
  "getForwardDirection e =
     (let r = rotation e
      in vec (sin (ey r)) (- (sin (ex r) * cos (ey r))) (cos (ex r) * cos (ey r)))"

definition die :: "AICharacter \<Rightarrow> AICharacter" where
  "die e = e\<lparr>isAlive := False, state := DEAD, velocity := vec 0 0 0, isAttacking := False\<rparr>"

definition takeDamage :: "real \<Rightarrow> AICharacter \<Rightarrow> AICharacter" where
  "takeDamage amount e =
     (if \<not> isAlive e then e
      else
        (let (e1, damage1) =
               (if armor e > 0 then
                  (let armorDamage = min (amount * 0.5) (armor e)
                   in (e\<lparr>armor := armor e - armorDamage\<rparr>, amount - armorDamage))
                else (e, amount));
             e2 = e1\<lparr>health := max 0 (health e1 - damage1)\<rparr>
         in if health e2 \<le> 0 then die e2 else e2))"

definition respawn :: "Vector3 \<Rightarrow> AICharacter \<Rightarrow> AICharacter" where
  "respawn pos e =
     e\<lparr>position := pos, health := maxHealth e, armor := 0, isAlive := True, state := IDLE\<rparr>"

section \<open>Perception (Perception.ts)\<close>

text \<open>
  The memory of a \<open>PerceptionSystem\<close> instance. \<open>performance.now()\<close> is read by
  the caller and passed in: \<open>now\<close> is the reading at the top of \<open>update\<close>,
  \<open>nowDamage\<close> the later reading inside \<open>checkDamage\<close>.
\<close>

record PerceptionSystem =
  lastKnownPosition :: Vector3
  lastSeenTime :: real
  lastHeardTime :: real
  lastDamagePosition :: "Vector3 option"
  lastDamageTime :: real

definition newPerceptionSystem :: PerceptionSystem where
  "newPerceptionSystem =
     \<lparr>lastKnownPosition = vec 0 0 0, lastSeenTime = 0, lastHeardTime = 0,
      lastDamagePosition = None, lastDamageTime = 0\<rparr>"

definition checkVision :: "Vector3 \<Rightarrow> Vector3 \<Rightarrow> Vector3 \<Rightarrow> PerceptionConfig \<Rightarrow> bool" where
  "checkVision enemyPosition enemyForward targetPos config =
     (let d = subVectors targetPos enemyPosition;
          distance = vlength d;
          tempDirection = normalize d
      in if distance > viewDistance config then False
         else
           (let dt = dot enemyForward tempDirection;
                viewHalfAngle = viewAngle config / 2
            in if dt \<ge> cos viewHalfAngle then True
               else if dt \<ge> cos (peripheralAngle config / 2)
                 then distance < viewDistance config * 0.5
               else False))"

definition checkHearing :: "Vector3 \<Rightarrow> Vector3 \<Rightarrow> real \<Rightarrow> PerceptionConfig \<Rightarrow> bool" where
  "checkHearing enemyPosition targetPos distance config =
     (if distance > alertHearingRange config then False
      else distance < hearingRange config)"

definition checkDamage :: "PerceptionSystem \<Rightarrow> AICharacter \<Rightarrow> real \<Rightarrow> bool" where
  "checkDamage ps enemy now = (if now - lastDamageTime ps < 1000 then True else False)"


definition getHearingSensitivity :: "AICharacter \<Rightarrow> real" where
  "getHearingSensitivity enemy =
     (if etype enemy = ''elite'' then 1.5
      else if etype enemy = ''soldier'' then 1.2
      else 1.0)"

definition PerceptionSystem_update ::
  "PerceptionSystem \<Rightarrow> AICharacter \<Rightarrow> Vector3 \<Rightarrow> real \<Rightarrow> real \<Rightarrow> PerceptionResult \<times> PerceptionSystem" where
  "PerceptionSystem_update ps enemy targetPos now nowDamage =
     (let config = perceptionConfig enemy;
          d = subVectors targetPos (position enemy);
          dist = vlength d;
          tempVector = normalize d;
          tempForward = getForwardDirection enemy;
          angle = angleTo tempForward tempVector;
          los = checkVision (position enemy) tempForward targetPos config;
          ps1 = (if los then ps\<lparr>lastKnownPosition := targetPos, lastSeenTime := now\<rparr> else ps);
          hear = checkHearing (position enemy) targetPos dist config;
          ps2 = (if hear then ps1\<lparr>lastHeardTime := now\<rparr> else ps1);
          takingDamage = checkDamage ps2 enemy nowDamage
      in (\<lparr>hasLineOfSight = los,
           visiblePosition = (if los then Some targetPos else None),
           distanceToTarget = dist,
           angleToTarget = angle,
           canHear = hear,
           hearingSensitivity = getHearingSensitivity enemy,
           isTakingDamage = takingDamage,
           res_lastDamagePosition = lastDamagePosition ps2,
           res_lastDamageTime = lastDamageTime ps2,
           timeSinceLastSeen = now - lastSeenTime ps2,
           timeSinceLastHeard = now - lastHeardTime ps2\<rparr>,
          ps2))"

definition remembersTarget :: "PerceptionSystem \<Rightarrow> PerceptionConfig \<Rightarrow> real \<Rightarrow> bool" where
  "remembersTarget ps config now =
     (now - lastSeenTime ps < memoryDuration config \<or>
      now - lastHeardTime ps < memoryDuration config)"

section \<open>Cover (CoverSystem.ts)\<close>

text \<open>
  The registry \<open>coverSpots\<close> is a \<open>Map\<close> iterated in insertion order: a list of
  its values.
\<close>

definition getAvailableCovers :: "CoverSpot list \<Rightarrow> AICharacter \<Rightarrow> CoverSpot list" where
  "getAvailableCovers coverSpots enemy =
     filter (\<lambda>cover.
        let distance = distanceTo (position enemy) (cs_position cover)
        in distance < 30 \<and> (case cs_health cover of None \<Rightarrow> True | Some h \<Rightarrow> h > 0))
       coverSpots"

definition scoreCover :: "CoverSpot \<Rightarrow> AICharacter \<Rightarrow> Vector3 \<Rightarrow> real" where
  "scoreCover cover enemy threatPosition =
     (let distance = distanceTo (position enemy) (cs_position cover);
          s1 = 0 + max 0 ((30 - distance) / 30) * 0.3;
          s2 = s1 + quality cover * 0.3;
          tempDirection = normalize (subVectors (cs_position cover) (position enemy));
          threatDirection = normalize (subVectors threatPosition (position enemy));
          angleToThreat = angleTo tempDirection threatDirection;
          s3 = (if angleToThreat < pi / 2 then s2 + 0.4 else s2);
          s4 = (if coverType cover = HIGH then s3 + 0.1 else s3)
      in s4)"

text \<open>
  JavaScript arithmetic on a value that may be \<open>undefined\<close>: \<open>None\<close> stands for
  \<open>undefined\<close> and for the NaN that arithmetic makes of it; every comparison with
  NaN is false.
\<close>

definition js_minus :: "real option \<Rightarrow> real \<Rightarrow> real option" where
  "js_minus a b = (case a of None \<Rightarrow> None | Some v \<Rightarrow> Some (v - b))"

definition js_less :: "real option \<Rightarrow> real \<Rightarrow> bool" where
  "js_less a b = (case a of None \<Rightarrow> False | Some v \<Rightarrow> v < b)"

text \<open>
  \<open>bestCover\<close> is \<open>scoredCovers[0]?.spot\<close>, a \<open>CoverSpot\<close>; the later read
  \<open>bestCover.score\<close> is of a property no \<open>CoverSpot\<close> has, and gives
  \<open>undefined\<close>.
\<close>

definition spot_score :: "CoverSpot \<Rightarrow> real option" where
  "spot_score cover = None"

text \<open>
  \<open>Array.prototype.sort\<close> is stable; with the comparator \<open>b.score - a.score\<close>
  it orders by descending score, as the stable insertion sort on the negated score does.
\<close>

definition findBestCover ::
  "CoverSpot list \<Rightarrow> AICharacter \<Rightarrow> Vector3 \<Rightarrow> CoverState option \<Rightarrow> CoverSpot option" where
  "findBestCover coverSpots enemy threatPosition currentCoverState =
     (let availableCovers = getAvailableCovers coverSpots enemy
      in if availableCovers = [] then None
         else
           (let scoredCovers = map (\<lambda>cover. (cover, scoreCover cover enemy threatPosition))
                                 availableCovers;
                sortedCovers = sort_key (\<lambda>a. - snd a) scoredCovers
            in case sortedCovers of
                 [] \<Rightarrow> None
               | best # _ \<Rightarrow>
                   (let bestCover = fst best
                    in case (case currentCoverState of None \<Rightarrow> None
                             | Some st \<Rightarrow> currentCover st) of
                         None \<Rightarrow> Some bestCover
                       | Some cur \<Rightarrow>
                           (let currentScore = scoreCover cur enemy threatPosition
                            in if js_less (js_minus (spot_score bestCover) currentScore) 0.2
                               then Some cur
                               else Some bestCover))))"

definition moveToCover :: "AICharacter \<Rightarrow> AICharacter" where
  "moveToCover enemy =
     (case targetCover (coverState enemy) of
        None \<Rightarrow> enemy
      | Some target \<Rightarrow>
          (let distance = distanceTo (position enemy) (cs_position target)
           in if distance < 1
              then enemy\<lparr>coverState := (coverState enemy)
                           \<lparr>currentCover := Some target, isMovingToCover := False\<rparr>,
                         isInCover := True\<rparr>
              else moveToward (cs_position target) 0.016 None enemy))"

definition checkCoverStatus :: "CoverSpot list \<Rightarrow> AICharacter \<Rightarrow> Vector3 \<Rightarrow> AICharacter" where
  "checkCoverStatus coverSpots enemy threatPosition =
     (case currentCover (coverState enemy) of
        None \<Rightarrow> enemy
      | Some cover \<Rightarrow>
          (let coverToThreat = normalize (subVectors threatPosition (cs_position cover));
               enemyToThreat = normalize (subVectors threatPosition (position enemy));
               angle = angleTo coverToThreat enemyToThreat;
               e1 = (if angle > pi * 0.7 then
                       (case findBestCover coverSpots enemy threatPosition
                               (Some (coverState enemy)) of
                          None \<Rightarrow> leaveCover enemy
                        | Some newCover \<Rightarrow>
                            if cs_id newCover \<noteq> cs_id cover
                            then setTargetCover newCover enemy
                            else leaveCover enemy)
                     else enemy)
           in if isDynamic cover \<and> (case cs_health cover of None \<Rightarrow> False | Some h \<Rightarrow> h \<le> 0)
              then leaveCover e1
              else e1))"

definition CoverSystem_update ::
  "CoverSpot list \<Rightarrow> AICharacter \<Rightarrow> Vector3 \<Rightarrow> PerceptionResult \<Rightarrow> AICharacter" where
  "CoverSystem_update coverSpots enemy playerPos perc =
     (let needsCover =
            (isTakingDamage perc \<or> distanceToTarget perc < 15 \<or>
             (health enemy < maxHealth enemy * 0.5 \<and> hasLineOfSight perc));
          e1 = (if needsCover \<and> currentCover (coverState enemy) = None then
                  (case findBestCover coverSpots enemy playerPos (Some (coverState enemy)) of
                     None \<Rightarrow> enemy
                   | Some bestCover \<Rightarrow> setTargetCover bestCover enemy)
                else enemy);
          e2 = (if isMovingToCover (coverState e1) then moveToCover e1 else e1)
      in checkCoverStatus coverSpots e2 playerPos)"

section \<open>The scheduler (AIManager.ts)\<close>

text \<open>
  An exception is a value: a function of the scheduler that can throw returns either
  the error together with the manager as the throw left it (\<open>Inl\<close>), or its result
  (\<open>Inr\<close>).
\<close>

datatype error = TypeError

definition bindE :: "error + 'a \<Rightarrow> ('a \<Rightarrow> error + 'b) \<Rightarrow> error + 'b" where
  "bindE r f = (case r of Inl err \<Rightarrow> Inl err | Inr v \<Rightarrow> f v)"

text \<open>
  AIManager.ts begins with \<open>import { AICharacter, AIState } from './AICharacter'\<close>.
  AICharacter.ts exports the class \<open>AICharacter\<close> only: it imports \<open>AIState\<close> from
  \<open>core/constants\<close> for its own use and does not export it. Inside AIManager.ts the
  name \<open>AIState\<close> is therefore bound to \<open>undefined\<close>, and every member read
  \<open>AIState.X\<close> in that file throws a TypeError. \<open>mgr_AIState X\<close> is that read.
\<close>

definition mgr_AIState :: "AIState \<Rightarrow> error + AIState" where
  "mgr_AIState member = Inl TypeError"

record BTContext =
  ctx_targetPosition :: Vector3
  ctx_hasLineOfSight :: bool
  ctx_distanceToTarget :: real
  ctx_isInCover :: bool
  ctx_isUnderFire :: bool
  ctx_health :: real
  ctx_maxHealth :: real

text \<open>
  Agents are objects, held by reference: \<open>agents\<close> is the store of agent objects by
  address, and the registry \<open>enemies\<close>, a \<open>Map\<close> from id to agent iterated in insertion
  order, is the list of its entries, each an id with the address of its agent. A change
  made to an agent through one reference is seen through every other.
  \<open>mgr_perception\<close> is the manager's field \<open>perception\<close>, the single
  \<open>PerceptionSystem\<close> it constructs; \<open>coverSystem\<close> holds the cover registry.
  \<open>clockCalls\<close> and \<open>randomCalls\<close> count the readings taken from the host.
\<close>

record AIManager =
  agents :: "nat \<Rightarrow> AICharacter"
  enemies :: "(string \<times> nat) list"
  mgr_perception :: PerceptionSystem
  coverSystem :: "CoverSpot list"
  playerPosition :: Vector3
  timeBudget :: real
  batchSize :: nat
  currentBatchIndex :: nat
  updateTime :: real
  activeCount :: nat
  clockCalls :: nat
  randomCalls :: nat

text \<open>
  What the scheduler takes from its host: the successive readings of
  \<open>performance.now()\<close>, the successive values of \<open>Math.random()\<close>, and the effect
  of \<open>behaviorTree.setContext(...)\<close> followed by \<open>behaviorTree.update(deltaTime)\<close>
  for the agent at a given address. BehaviorTree.ts is not among the sources and its
  action nodes may change the agent and the world around it, so the effect is a
  parameter that takes the whole state of the manager to a new one; nothing is assumed
  of it but what a theorem states as a hypothesis.
\<close>

record Host =
  now :: "nat \<Rightarrow> real"
  random :: "nat \<Rightarrow> real"
  behaviorTreeUpdate :: "BTContext \<Rightarrow> real \<Rightarrow> nat \<Rightarrow> AIManager \<Rightarrow> AIManager"

text \<open>
  Modelled from the spec: AIManager.ts takes its time budget and batch size from
  \<open>GAME_CONFIG.AI_TIME_BUDGET_MS\<close> and \<open>GAME_CONFIG.AI_BATCH_SIZE\<close>, imported from
  \<open>core/constants\<close>, which is not among the sources. The spec gives the defaults: a
  batch size of 10 and a deadline of 8 ms. (Core.ts declares a \<open>GAME_CONFIG\<close> with
  the same two values.)
\<close>

definition AI_TIME_BUDGET_MS :: real where
  "AI_TIME_BUDGET_MS = 8"

definition AI_BATCH_SIZE :: nat where
  "AI_BATCH_SIZE = 10"

definition newAIManager :: AIManager where
  "newAIManager =
     \<lparr>agents = (\<lambda>a. newAICharacter [] [] DEFAULT_AI_CONFIG), enemies = [],
      mgr_perception = newPerceptionSystem, coverSystem = [],
      playerPosition = vec 0 0 0, timeBudget = AI_TIME_BUDGET_MS, batchSize = AI_BATCH_SIZE,
      currentBatchIndex = 0, updateTime = 0, activeCount = 0, clockCalls = 0,
      randomCalls = 0\<rparr>"




definition updatePlayerPosition :: "Vector3 \<Rightarrow> AIManager \<Rightarrow> AIManager" where
  "updatePlayerPosition pos m = m\<lparr>playerPosition := pos\<rparr>"

text \<open>
  \<open>getPriority\<close>: its first statement reads \<open>AIState.COMBAT\<close>, and
  \<open>AIState.CHASE\<close> when the first comparison is false; the second reads
  \<open>AIState.ALERT\<close>.
\<close>

definition getPriority :: "AIManager \<Rightarrow> AICharacter \<Rightarrow> error + real" where
  "getPriority m enemy =
     bindE (bindE (mgr_AIState COMBAT) (\<lambda>combat.
              if state enemy = combat then Inr True
              else bindE (mgr_AIState CHASE) (\<lambda>chase. Inr (state enemy = chase))))
       (\<lambda>fighting.
          let p0 = 0;
              p1 = (if fighting then p0 + 3 else p0)
          in bindE (mgr_AIState ALERT) (\<lambda>alert.
               let p2 = (if state enemy = alert then p1 + 2 else p1);
                   p3 = (if health enemy < maxHealth enemy * 0.3 then p2 + 1 else p2);
                   distance = distanceTo (position enemy) (playerPosition m)
               in Inr (p3 + max 0 ((100 - distance) / 100))))"

text \<open>The comparator of \<open>sortEnemiesByPriority\<close>, on two agent references.\<close>

definition comparePriority :: "AIManager \<Rightarrow> nat \<Rightarrow> nat \<Rightarrow> error + real" where
  "comparePriority m a b =
     bindE (getPriority m (agents m a)) (\<lambda>aPriority.
       bindE (getPriority m (agents m b)) (\<lambda>bPriority.
         Inr (bPriority - aPriority)))"

text \<open>
  \<open>Array.prototype.sort\<close> with a comparator: the sort is stable, it calls the
  comparator at least once when the array has two elements or more and never when it
  has fewer, and an exception of the comparator ends it. Which pairs it compares is left
  to the engine; the model is the stable insertion sort, from the right.
\<close>

fun insertBy :: "('a \<Rightarrow> 'a \<Rightarrow> error + real) \<Rightarrow> 'a \<Rightarrow> 'a list \<Rightarrow> error + 'a list" where
  "insertBy cmp x [] = Inr [x]"
| "insertBy cmp x (y # ys) =
     bindE (cmp x y) (\<lambda>c.
       if c \<le> 0 then Inr (x # y # ys)
       else bindE (insertBy cmp x ys) (\<lambda>r. Inr (y # r)))"

fun sortBy :: "('a \<Rightarrow> 'a \<Rightarrow> error + real) \<Rightarrow> 'a list \<Rightarrow> error + 'a list" where
  "sortBy cmp [] = Inr []"
| "sortBy cmp (x # xs) = bindE (sortBy cmp xs) (insertBy cmp x)"

text \<open>
  \<open>sortEnemiesByPriority\<close>: the array of the registry's agents (references), sorted.
\<close>

definition sortEnemiesByPriority :: "AIManager \<Rightarrow> error + nat list" where
  "sortEnemiesByPriority m = sortBy (comparePriority m) (map snd (enemies m))"

definition updateEnemyFull :: "Host \<Rightarrow> nat \<Rightarrow> real \<Rightarrow> AIManager \<Rightarrow> AIManager" where
  "updateEnemyFull host enemy deltaTime m =
     (if \<not> isAlive (agents m enemy) then m
      else
        (let (perceptionResult, ps) =
               PerceptionSystem_update (mgr_perception m) (agents m enemy) (playerPosition m)
                 (now host (clockCalls m)) (now host (clockCalls m + 1));
             m1 = m\<lparr>agents := (agents m)
                        (enemy := (agents m enemy)\<lparr>perception := Some perceptionResult\<rparr>),
                    mgr_perception := ps, clockCalls := clockCalls m + 2\<rparr>;
             m2 = (if canUseCover (agents m1 enemy)
                   then m1\<lparr>agents := (agents m1)
                          (enemy := CoverSystem_update (coverSystem m1) (agents m1 enemy)
                                      (playerPosition m1) perceptionResult)\<rparr>
                   else m1);
             m3 = (if hasBehaviorTree (agents m2 enemy)
                   then behaviorTreeUpdate host
                          \<lparr>ctx_targetPosition = playerPosition m2,
                           ctx_hasLineOfSight = hasLineOfSight perceptionResult,
                           ctx_distanceToTarget = distanceToTarget perceptionResult,
                           ctx_isInCover = isInCover (agents m2 enemy),
                           ctx_isUnderFire = isTakingDamage perceptionResult,
                           ctx_health = health (agents m2 enemy),
                           ctx_maxHealth = maxHealth (agents m2 enemy)\<rparr> deltaTime enemy m2
                   else m2)
         in m3\<lparr>agents := (agents m3)(enemy := update deltaTime (agents m3 enemy))\<rparr>))"

definition updateEnemySimplified :: "Host \<Rightarrow> nat \<Rightarrow> real \<Rightarrow> AIManager \<Rightarrow> AIManager" where
  "updateEnemySimplified host enemy deltaTime m =
     (if \<not> isAlive (agents m enemy) then m
      else
        (let (perceptionResult, ps) =
               PerceptionSystem_update (mgr_perception m) (agents m enemy) (playerPosition m)
                 (now host (clockCalls m)) (now host (clockCalls m + 1));
             e1 = (agents m enemy)\<lparr>perception := Some perceptionResult\<rparr>;
             e2 = (if hasLineOfSight perceptionResult
                   then moveToward (playerPosition m) deltaTime None e1
                   else e1);
             e3 = update deltaTime e2
         in m\<lparr>agents := (agents m)(enemy := e3), mgr_perception := ps,
              clockCalls := clockCalls m + 2\<rparr>))"

definition updateEnemyBasic :: "Host \<Rightarrow> nat \<Rightarrow> real \<Rightarrow> AIManager \<Rightarrow> AIManager" where
  "updateEnemyBasic host enemy deltaTime m =
     (if \<not> isAlive (agents m enemy) then m
      else m\<lparr>agents := (agents m)(enemy := updateBasic deltaTime (agents m enemy))\<rparr>)"

definition updateEnemy :: "Host \<Rightarrow> nat \<Rightarrow> real \<Rightarrow> AIManager \<Rightarrow> AIManager" where
  "updateEnemy host enemy deltaTime m =
     (let distance = distanceTo (position (agents m enemy)) (playerPosition m)
      in if distance < 20 then updateEnemyFull host enemy deltaTime m
         else if distance < 50 then updateEnemySimplified host enemy deltaTime m
         else updateEnemyBasic host enemy deltaTime m)"

text \<open>
  A \<open>forEach\<close> whose body can throw: the first exception ends the iteration, and the
  state is as the iterations before it and the throwing one left it.
\<close>

fun forEachE :: "('a \<Rightarrow> 's \<Rightarrow> (error \<times> 's) + 's) \<Rightarrow> 'a list \<Rightarrow> 's \<Rightarrow> (error \<times> 's) + 's" where
  "forEachE f [] s = Inr s"
| "forEachE f (x # xs) s = (case f x s of Inl t \<Rightarrow> Inl t | Inr s' \<Rightarrow> forEachE f xs s')"

text \<open>
  \<open>alertNearbyEnemies(sourceEnemy)\<close>: \<open>alertOne\<close> is the body of its
  \<open>forEach\<close> for one agent of the registry. The argument \<open>AIState.ALERT\<close> of
  \<open>transitionTo\<close> is evaluated before the call.
\<close>

definition alertOne :: "Host \<Rightarrow> nat \<Rightarrow> nat \<Rightarrow> AIManager \<Rightarrow> (error \<times> AIManager) + AIManager" where
  "alertOne host sourceEnemy enemy m =
     (if eid (agents m enemy) = eid (agents m sourceEnemy) \<or> \<not> isAlive (agents m enemy)
      then Inr m
      else
        (let distance = distanceTo (position (agents m enemy)) (position (agents m sourceEnemy))
         in if distance < 30 then
              (case mgr_AIState ALERT of
                 Inl err \<Rightarrow> Inl (err, m)
               | Inr alert \<Rightarrow>
                   (let e1 = transitionTo alert (agents m enemy);
                        e2 = setAlertTarget (playerPosition m) e1
                    in if etype e2 = ''flanker''
                       then Inr (m\<lparr>agents := (agents m)
                                   (enemy := executeFlankManuver (playerPosition m)
                                               (random host (randomCalls m))
                                               (random host (randomCalls m + 1)) e2),
                                 randomCalls := randomCalls m + 2\<rparr>)
                       else Inr (m\<lparr>agents := (agents m)(enemy := e2)\<rparr>)))
            else Inr m))"

definition alertNearbyEnemies :: "Host \<Rightarrow> nat \<Rightarrow> AIManager \<Rightarrow> (error \<times> AIManager) + AIManager" where
  "alertNearbyEnemies host sourceEnemy m =
     forEachE (alertOne host sourceEnemy) (map snd (enemies m)) m"

definition groupStep :: "Host \<Rightarrow> nat \<Rightarrow> AIManager \<Rightarrow> (error \<times> AIManager) + AIManager" where
  "groupStep host enemy m =
     (if isAlive (agents m enemy) \<and>
         (case perception (agents m enemy) of None \<Rightarrow> False | Some p \<Rightarrow> hasLineOfSight p)
      then alertNearbyEnemies host enemy m
      else Inr m)"

definition updateGroupAI :: "Host \<Rightarrow> AIManager \<Rightarrow> (error \<times> AIManager) + AIManager" where
  "updateGroupAI host m = forEachE (groupStep host) (map snd (enemies m)) m"

text \<open>
  The batch loop of \<open>update\<close>, over the rest of \<open>sortedEnemies\<close> from the cursor
  on: it stops at the end of the array, when \<open>processed\<close> has reached the batch size,
  or when the clock reading is more than the time budget after \<open>startTime\<close>.
\<close>

fun batchLoop ::
  "Host \<Rightarrow> real \<Rightarrow> real \<Rightarrow> nat list \<Rightarrow> nat \<Rightarrow> AIManager \<Rightarrow> nat \<times> AIManager" where
  "batchLoop host deltaTime startTime [] processed m = (processed, m)"
| "batchLoop host deltaTime startTime (enemy # rest) processed m =
     (if processed \<ge> batchSize m then (processed, m)
      else
        (let t = now host (clockCalls m);
             m1 = m\<lparr>clockCalls := clockCalls m + 1\<rparr>
         in if t - startTime > timeBudget m1 then (processed, m1)
            else batchLoop host deltaTime startTime rest (processed + 1)
                   (updateEnemy host enemy deltaTime m1)))"

text \<open>
  The first half of \<open>update\<close>, up to the end of the batch loop: the start time, the
  length of the sorted array, the number of agents processed and the manager after
  them; or the exception of the sort, which comes before the loop.
\<close>

definition processBatch ::
  "Host \<Rightarrow> real \<Rightarrow> AIManager \<Rightarrow> (error \<times> AIManager) + (real \<times> nat \<times> nat \<times> AIManager)" where
  "processBatch host deltaTime m =
     (let startTime = now host (clockCalls m);
          m0 = m\<lparr>clockCalls := clockCalls m + 1\<rparr>
      in case sortEnemiesByPriority m0 of
           Inl err \<Rightarrow> Inl (err, m0)
         | Inr sortedEnemies \<Rightarrow>
             (let (processed, m1) =
                    batchLoop host deltaTime startTime
                      (drop (currentBatchIndex m0) sortedEnemies) 0 m0
              in Inr (startTime, length sortedEnemies, processed, m1)))"

text \<open>
  The number of agents processed in the batch loop of one call of \<open>update\<close>: none
  when the sort throws.
\<close>

definition processedCount :: "Host \<Rightarrow> real \<Rightarrow> AIManager \<Rightarrow> nat" where
  "processedCount host deltaTime m =
     (case processBatch host deltaTime m of
        Inl t \<Rightarrow> 0
      | Inr r \<Rightarrow> fst (snd (snd r)))"

definition AIManager_update :: "Host \<Rightarrow> real \<Rightarrow> AIManager \<Rightarrow> (error \<times> AIManager) + AIManager" where
  "AIManager_update host deltaTime m =
     (case processBatch host deltaTime m of
        Inl t \<Rightarrow> Inl t
      | Inr (startTime, n, processed, m1) \<Rightarrow>
          (let m2 = m1\<lparr>currentBatchIndex := (currentBatchIndex m1 + processed) mod max 1 n\<rparr>
           in case updateGroupAI host m2 of
                Inl t \<Rightarrow> Inl t
              | Inr m3 \<Rightarrow>
                  Inr (m3\<lparr>updateTime := now host (clockCalls m3) - startTime,
                          activeCount := length (enemies m3),
                          clockCalls := clockCalls m3 + 1\<rparr>)))"


definition finalState :: "(error \<times> 's) + 's \<Rightarrow> 's" where
  "finalState r = (case r of Inl t \<Rightarrow> snd t | Inr s \<Rightarrow> s)"

section \<open>Notions used to state the properties\<close>

text \<open>
  Calls made on one agent from outside: \<open>takeDamage(amount)\<close> and
  \<open>respawn(position)\<close>, and a sequence of them applied in order.
\<close>

datatype AgentOp = TakeDamage real | Respawn Vector3

fun applyOp :: "AgentOp \<Rightarrow> AICharacter \<Rightarrow> AICharacter" where
  "applyOp (TakeDamage d) e = takeDamage d e"
| "applyOp (Respawn p) e = respawn p e"

definition nonNegative :: "AgentOp \<Rightarrow> bool" where
  "nonNegative op = (case op of TakeDamage d \<Rightarrow> 0 \<le> d | Respawn p \<Rightarrow> True)"

definition healthArmorInv :: "AICharacter \<Rightarrow> bool" where
  "healthArmorInv e = (0 \<le> health e \<and> health e \<le> maxHealth e \<and> 0 \<le> armor e)"

text \<open>The state that the physical condition of an agent determines.\<close>

definition stateFromCondition :: "AICharacter \<Rightarrow> AIState" where
  "stateFromCondition e =
     (if isInCover e then COVER
      else if (case perception e of None \<Rightarrow> False | Some p \<Rightarrow> hasLineOfSight p) then COMBAT
      else if vlength (velocity e) > 3 then CHASE
      else if vlength (velocity e) > 0.1 then PATROL
      else IDLE)"

text \<open>A perception configuration whose peripheral cone is a half space.\<close>

definition widePeripheralConfig :: PerceptionConfig where
  "widePeripheralConfig = DEFAULT_PERCEPTION_CONFIG\<lparr>viewDistance := 2, peripheralAngle := pi\<rparr>"



section \<open>Example inputs\<close>

text \<open>
  A host whose clock stands at 5000 ms, whose random numbers are all 0.5 and whose
  behaviour trees do nothing.
\<close>

definition quietHost :: Host where
  "quietHost = \<lparr>now = (\<lambda>k. 5000), random = (\<lambda>k. 0.5), behaviorTreeUpdate = (\<lambda>ctx dt a m. m)\<rparr>"



text \<open>
  An agent at the origin looking along \<open>+z\<close>, a second one 41 units down the same
  axis, and a manager holding both, with the player at \<open>(0, 0, 1)\<close>: the first is 1
  unit from the player and sees it, the second is 40 units away, beyond its view
  distance and hearing range. And a manager holding the first agent alone.
\<close>

definition agentNear :: AICharacter where
  "agentNear = newAICharacter ''near'' ''grunt'' DEFAULT_AI_CONFIG"

definition agentFar :: AICharacter where
  "agentFar = (newAICharacter ''far'' ''grunt'' DEFAULT_AI_CONFIG)\<lparr>position := vec 0 0 41\<rparr>"

definition twoAgents :: AIManager where
  "twoAgents = newAIManager
     \<lparr>agents := (agents newAIManager)(0 := agentNear, 1 := agentFar),
      enemies := [(''near'', 0), (''far'', 1)], playerPosition := vec 0 0 1\<rparr>"





text \<open>
  The first agent with the perception result of one update stored on it, a second agent
  in state IDLE two units from it, and a manager holding both.
\<close>

definition spotter :: AICharacter where
  "spotter = agentNear
     \<lparr>perception := Some (fst (PerceptionSystem_update newPerceptionSystem agentNear
                                (vec 0 0 1) 5000 5000)),
      state := COMBAT\<rparr>"

definition sentry :: AICharacter where
  "sentry = (newAICharacter ''sentry'' ''grunt'' DEFAULT_AI_CONFIG)\<lparr>position := vec 0 0 2\<rparr>"

definition squad :: AIManager where
  "squad = newAIManager
     \<lparr>agents := (agents newAIManager)(0 := spotter, 1 := sentry),
      enemies := [(''near'', 0), (''sentry'', 1)], playerPosition := vec 0 0 1\<rparr>"

text \<open>
  Two cover spots and an agent at the origin that occupies the first; the second lies one
  unit away. Seen from a threat at \<open>(0, 0, -1)\<close> neither lies between agent and
  threat.
\<close>

definition coverA :: CoverSpot where
  "coverA = \<lparr>cs_id = ''cover_A'', cs_position = vec 0 0 0, quality = 0.5, coverType = LOW,
             directions = [], height = 1, isDynamic = False, cs_health = None\<rparr>"

definition coverB :: CoverSpot where
  "coverB = \<lparr>cs_id = ''cover_B'', cs_position = vec 0 0 1, quality = 0.8, coverType = LOW,
             directions = [], height = 1, isDynamic = False, cs_health = None\<rparr>"

definition occupant :: AICharacter where
  "occupant = (newAICharacter ''e1'' ''grunt'' DEFAULT_AI_CONFIG)
     \<lparr>isInCover := True,
      coverState := \<lparr>currentCover = Some coverA, targetCover = Some coverA,
                     isMovingToCover = False, coverTimer = 0, retreatHealthThreshold = 0.3\<rparr>\<rparr>"

section \<open>Vectors\<close>

lemma lengthSq_nonneg: "0 \<le> lengthSq v"
  by (simp add: lengthSq_def)

lemma lengthSq_vec [simp]: "lengthSq (vec a b c) = a * a + b * b + c * c"
  by (simp add: lengthSq_def vec_def)

lemma lengthSq_vec_div: "lengthSq (vec (a / l) (b / l) (c / l)) = (a * a + b * b + c * c) / (l * l)"
  by (simp add: add_divide_distrib)

lemma lengthSq_normalize:
  "lengthSq (normalize v) = (if lengthSq v = 0 then 0 else 1)"
proof (cases "lengthSq v = 0")
  case True
  then have "vx v = 0 \<and> vy v = 0 \<and> vz v = 0"
    by (simp add: lengthSq_def add_nonneg_eq_0_iff)
  then show ?thesis using True by (simp add: normalize_def vlength_def Let_def)
next
  case False
  have pos: "0 < lengthSq v" using False lengthSq_nonneg[of v] by simp
  let ?l = "sqrt (lengthSq v)"
  have l2: "?l * ?l = lengthSq v" using pos by simp
  have n: "normalize v = vec (vx v / ?l) (vy v / ?l) (vz v / ?l)"
    using False by (simp add: normalize_def vlength_def Let_def)
  have "lengthSq (normalize v) = (vx v * vx v + vy v * vy v + vz v * vz v) / (?l * ?l)"
    unfolding n by (rule lengthSq_vec_div)
  also have "\<dots> = lengthSq v / lengthSq v" unfolding l2 by (simp add: lengthSq_def)
  finally show ?thesis using False by simp
qed

lemma dot_normalize_zero: "lengthSq v = 0 \<Longrightarrow> dot f (normalize v) = 0"
proof -
  assume "lengthSq v = 0"
  then have "vx v = 0 \<and> vy v = 0 \<and> vz v = 0"
    by (simp add: lengthSq_def add_nonneg_eq_0_iff)
  then show ?thesis by (simp add: normalize_def dot_def vec_def Let_def)
qed

lemma unit_from_angles:
  fixes sa ca sb cb :: real
  assumes "sa * sa + ca * ca = 1" and "sb * sb + cb * cb = 1"
  shows "sb * sb + (- (sa * cb)) * (- (sa * cb)) + (ca * cb) * (ca * cb) = 1"
proof -
  have "sb * sb + (- (sa * cb)) * (- (sa * cb)) + (ca * cb) * (ca * cb) =
        sb * sb + (cb * cb) * (sa * sa + ca * ca)"
    by (simp add: algebra_simps)
  then show ?thesis using assms by simp
qed

lemma getForwardDirection_unit: "lengthSq (getForwardDirection e) = 1"
proof -
  have s: "sin x * sin x + cos x * cos x = 1" for x :: real
    using sin_cos_squared_add[of x] by (simp add: power2_eq_square)
  have "lengthSq (getForwardDirection e) =
        sin (ey (rotation e)) * sin (ey (rotation e)) +
        (- (sin (ex (rotation e)) * cos (ey (rotation e)))) *
        (- (sin (ex (rotation e)) * cos (ey (rotation e)))) +
        (cos (ex (rotation e)) * cos (ey (rotation e))) *
        (cos (ex (rotation e)) * cos (ey (rotation e)))"
    unfolding getForwardDirection_def Let_def lengthSq_vec by (rule refl)
  also have "\<dots> = 1" by (rule unit_from_angles[OF s s])
  finally show ?thesis .
qed

text \<open>The cosine of the angle that angleTo returns, for a unit first argument and a
  normalised second one, dominates the dot product the vision test uses.\<close>

lemma cos_angleTo_ge_dot:
  assumes "lengthSq f = 1"
  shows "dot f (normalize d) \<le> cos (angleTo f (normalize d)) \<or> angleTo f (normalize d) = 0"
proof (cases "lengthSq d = 0")
  case True
  then show ?thesis
    using assms by (simp add: angleTo_def lengthSq_normalize dot_normalize_zero)
next
  case False
  let ?x = "dot f (normalize d)"
  have ang: "angleTo f (normalize d) = arccos (clamp ?x (- 1) 1)"
    using assms False by (simp add: angleTo_def lengthSq_normalize)
  show ?thesis
  proof (cases "?x \<le> 1")
    case True
    have b: "- 1 \<le> clamp ?x (- 1) 1" "clamp ?x (- 1) 1 \<le> 1" by (simp_all add: clamp_def)
    have "?x \<le> clamp ?x (- 1) 1" using True by (simp add: clamp_def)
    also have "\<dots> = cos (angleTo f (normalize d))" using b by (simp add: ang cos_arccos)
    finally show ?thesis by simp
  next
    case False
    then have "clamp ?x (- 1) 1 = 1" by (simp add: clamp_def)
    then show ?thesis by (simp add: ang)
  qed
qed

lemma angleTo_range: "0 \<le> angleTo a b \<and> angleTo a b \<le> pi"
proof -
  have b: "- 1 \<le> clamp x (- 1) 1" "clamp x (- 1) 1 \<le> 1" for x by (simp_all add: clamp_def)
  show ?thesis using arccos_lbound[OF b] arccos_ubound[OF b]
    by (simp add: angleTo_def Let_def)
qed

lemma beyond_half_angle:
  assumes "lengthSq f = 1" and "0 \<le> h" and "h < angleTo f (normalize d)"
  shows "dot f (normalize d) < cos h"
proof -
  let ?a = "angleTo f (normalize d)"
  have r: "0 \<le> ?a" "?a \<le> pi" using angleTo_range by simp_all
  have "?a \<noteq> 0" using assms by simp
  then have "dot f (normalize d) \<le> cos ?a" using cos_angleTo_ge_dot[OF assms(1)] by blast
  also have "cos ?a < cos h" using assms r by (intro cos_monotone_0_pi) simp_all
  finally show ?thesis .
qed

lemma straight_ahead:
  assumes "lengthSq f = 1" and "0 < s"
  shows "vlength (subVectors (addScaledVector p f s) p) = s"
    and "normalize (subVectors (addScaledVector p f s) p) = f"
proof -
  have d: "subVectors (addScaledVector p f s) p = vec (vx f * s) (vy f * s) (vz f * s)"
    by (simp add: subVectors_def addScaledVector_def vec_def)
  have "lengthSq (vec (vx f * s) (vy f * s) (vz f * s)) = (s * s) * lengthSq f"
    by (simp add: lengthSq_def vec_def algebra_simps)
  then have l: "vlength (vec (vx f * s) (vy f * s) (vz f * s)) = s"
    using assms by (simp add: vlength_def real_sqrt_mult)
  show "vlength (subVectors (addScaledVector p f s) p) = s" using d l by simp
  show "normalize (subVectors (addScaledVector p f s) p) = f"
    using assms d l by (simp add: normalize_def Let_def vec_def)
qed

lemma dot_self: "dot f f = lengthSq f"
  by (simp add: dot_def lengthSq_def)

section \<open>Damage, death and respawn\<close>

text \<open>
  C3. For a live agent, \<open>takeDamage(d)\<close> first takes \<open>min(d * 0.5, armor)\<close> from
  the armor (when the armor is positive), then subtracts the rest of the damage from the
  health, clamped at 0, and the agent dies (velocity zeroed, attack flag cleared, state
  DEAD) exactly when the health has reached 0. With armor 20, \<open>takeDamage(30)\<close>
  takes 15 from the armor and 15 from the health. The equations hold for every amount,
  so in particular for \<open>d \<ge> 0\<close>.
\<close>

theorem takeDamage_mitigation_order:
  assumes "isAlive e"
  shows "let a = (if armor e > 0 then min (d * 0.5) (armor e) else 0);
             h = max 0 (health e - (d - a));
             e' = e\<lparr>armor := armor e - a, health := h\<rparr>
         in armor (takeDamage d e) = armor e - a \<and>
            health (takeDamage d e) = h \<and>
            takeDamage d e = (if h = 0 then die e' else e') \<and>
            isAlive (takeDamage d e) = (h \<noteq> 0) \<and>
            (h = 0 \<longrightarrow> velocity (takeDamage d e) = vec 0 0 0 \<and>
                       \<not> isAttacking (takeDamage d e) \<and> state (takeDamage d e) = DEAD) \<and>
            (armor e = 20 \<and> d = 30 \<longrightarrow>
               armor (takeDamage d e) = armor e - 15 \<and>
               health (takeDamage d e) = max 0 (health e - 15))"
  using assms
  by (auto simp: takeDamage_def die_def Let_def split: if_splits)

theorem takeDamage_mitigation_order_witness:
  "let e = (newAICharacter ''e1'' ''grunt'' DEFAULT_AI_CONFIG)\<lparr>health := 100, maxHealth := 100, armor := 20\<rparr>
   in isAlive e \<and> armor (takeDamage 30 e) = 5 \<and> health (takeDamage 30 e) = 85 \<and> isAlive (takeDamage 30 e)"
  using takeDamage_mitigation_order
    [of "(newAICharacter ''e1'' ''grunt'' DEFAULT_AI_CONFIG)\<lparr>health := 100, maxHealth := 100, armor := 20\<rparr>" 30]
  by (simp add: newAICharacter_def Let_def)

lemma takeDamage_inv: "healthArmorInv e \<Longrightarrow> 0 \<le> d \<Longrightarrow> healthArmorInv (takeDamage d e)"
  by (auto simp: healthArmorInv_def takeDamage_def die_def Let_def split: if_splits)

lemma respawn_inv: "healthArmorInv e \<Longrightarrow> healthArmorInv (respawn p e)"
  by (auto simp: healthArmorInv_def respawn_def)

text \<open>
  C4. If the health of an agent starts in \<open>[0, maxHealth]\<close> and its armor is not
  negative, then after any finite sequence of \<open>takeDamage\<close> calls with non-negative
  amounts, interleaved with \<open>respawn\<close> calls, the health is still in
  \<open>[0, maxHealth]\<close> and the armor is still not negative (and \<open>maxHealth\<close> has
  not changed).
\<close>

theorem health_armor_invariant:
  assumes "0 \<le> health e \<and> health e \<le> maxHealth e" and "0 \<le> armor e"
    and "\<forall>op \<in> set ops. nonNegative op"
  shows "0 \<le> health (fold applyOp ops e) \<and> health (fold applyOp ops e) \<le> maxHealth (fold applyOp ops e)
         \<and> 0 \<le> armor (fold applyOp ops e) \<and> maxHealth (fold applyOp ops e) = maxHealth e"
proof -
  have mh: "maxHealth (applyOp op x) = maxHealth x" for op x
    by (cases op) (auto simp: takeDamage_def die_def respawn_def Let_def split: if_splits)
  have step: "healthArmorInv x \<Longrightarrow> nonNegative op \<Longrightarrow> healthArmorInv (applyOp op x)" for op x
    by (cases op) (auto simp: nonNegative_def takeDamage_inv respawn_inv)
  have "healthArmorInv x \<Longrightarrow> \<forall>op \<in> set ops. nonNegative op \<Longrightarrow>
        healthArmorInv (fold applyOp ops x) \<and> maxHealth (fold applyOp ops x) = maxHealth x" for x
  proof (induction ops arbitrary: x)
    case Nil
    then show ?case by simp
  next
    case (Cons op ops)
    then show ?case using step[of x op] mh[of op x] by simp
  qed
  from this[of e] assms show ?thesis by (simp add: healthArmorInv_def)
qed

theorem health_armor_invariant_witness:
  "(let e = (newAICharacter ''e1'' ''grunt'' DEFAULT_AI_CONFIG)\<lparr>armor := 20\<rparr>;
        ops = [TakeDamage 30, Respawn (vec 1 0 1), TakeDamage 100]
    in 0 \<le> health e \<and> health e \<le> maxHealth e \<and> 0 \<le> armor e \<and>
       nonNegative (TakeDamage 30) \<and> nonNegative (Respawn (vec 1 0 1)) \<and>
       nonNegative (TakeDamage 100) \<and>
       0 \<le> health (fold applyOp ops e) \<and>
       health (fold applyOp ops e) \<le> maxHealth (fold applyOp ops e) \<and>
       0 \<le> armor (fold applyOp ops e))"
proof -
  let ?e = "(newAICharacter ''e1'' ''grunt'' DEFAULT_AI_CONFIG)\<lparr>armor := 20\<rparr>"
  let ?ops = "[TakeDamage 30, Respawn (vec 1 0 1), TakeDamage 100]"
  have h1: "0 \<le> health ?e \<and> health ?e \<le> maxHealth ?e"
    by (simp add: newAICharacter_def DEFAULT_AI_CONFIG_def)
  have h2: "0 \<le> armor ?e" by simp
  have n: "nonNegative (TakeDamage 30) \<and> nonNegative (Respawn (vec 1 0 1)) \<and>
           nonNegative (TakeDamage 100)"
    by (simp add: nonNegative_def)
  then have h3: "\<forall>op \<in> set ?ops. nonNegative op" by simp
  show ?thesis
    using health_armor_invariant[OF h1 h2 h3] h1 h2 n unfolding Let_def by blast
qed

section \<open>The state machine\<close>

text \<open>
  C9. The claim is that \<open>transitionTo\<close> on a dead agent, with any state other than
  DEAD, is rejected: the state stays DEAD and no entry action runs. \<open>transitionTo\<close>
  has no liveness check (unlike \<open>update\<close> and \<open>takeDamage\<close>): an agent killed by
  \<open>takeDamage(50)\<close> and then sent \<open>transitionTo(COMBAT)\<close> is in state COMBAT
  with its attack flag set, while \<open>isAlive\<close> is still false.
\<close>

theorem transitionTo_dead_agent:
  "let e = takeDamage 50 (newAICharacter ''e1'' ''grunt'' DEFAULT_AI_CONFIG)
   in state e = DEAD \<and> \<not> isAlive e \<and> \<not> isAttacking e \<and>
      state (transitionTo COMBAT e) = COMBAT \<and> isAttacking (transitionTo COMBAT e) \<and>
      \<not> isAlive (transitionTo COMBAT e)"
  by (simp add: takeDamage_def die_def newAICharacter_def DEFAULT_AI_CONFIG_def transitionTo_def Let_def)

lemma transitionTo_state: "state (transitionTo s e) = s"
  by (cases s) (auto simp: transitionTo_def startPatrol_def startRetreat_def Let_def)

lemma rotate_frame:
  "isInCover (rotateTowardTarget dt e) = isInCover e"
  "perception (rotateTowardTarget dt e) = perception e"
  "velocity (rotateTowardTarget dt e) = velocity e"
  by (simp_all add: rotateTowardTarget_def Let_def)

lemma transitionTo_frame:
  "isInCover (transitionTo s e) = isInCover e"
  "perception (transitionTo s e) = perception e"
  "velocity (transitionTo s e) = velocity e"
  "isAlive (transitionTo s e) = isAlive e"
  by (cases s; simp add: transitionTo_def startPatrol_def startRetreat_def Let_def)+

lemma state_update: "isAlive e \<Longrightarrow> state (update dt e) = stateFromCondition e"
  by (simp add: update_def updateState_def stateFromCondition_def Let_def rotate_frame)

text \<open>
  C10. Every \<open>update(deltaTime)\<close> on a live agent recomputes the state from the
  agent's condition alone: COVER if the in-cover flag is set, else COMBAT if the stored
  perception has line of sight, else CHASE if the speed is over 3, else PATROL if it is
  over 0.1, else IDLE. A state set just before by \<open>transitionTo\<close> does not survive
  the call, and the state after it is never ALERT, RETREAT or DEAD.
\<close>

theorem update_recomputes_state:
  assumes "isAlive e"
  shows "state (update dt e) = stateFromCondition e \<and>
         state (update dt (transitionTo s e)) = stateFromCondition e \<and>
         state (update dt e) \<noteq> ALERT \<and> state (update dt e) \<noteq> RETREAT \<and>
         state (update dt e) \<noteq> DEAD"
proof -
  have "stateFromCondition (transitionTo s e) = stateFromCondition e"
    by (simp add: stateFromCondition_def transitionTo_frame)
  moreover have "stateFromCondition e \<noteq> ALERT \<and> stateFromCondition e \<noteq> RETREAT \<and> stateFromCondition e \<noteq> DEAD"
    by (simp add: stateFromCondition_def)
  ultimately show ?thesis using assms
    by (simp add: state_update transitionTo_frame)
qed

theorem update_recomputes_state_witness:
  "(let e = newAICharacter ''e1'' ''grunt'' DEFAULT_AI_CONFIG
    in isAlive e \<and> state (transitionTo ALERT e) = ALERT \<and>
       state (update 0.016 (transitionTo ALERT e)) = IDLE \<and>
       state (update 0.016 e) = IDLE)"
proof -
  let ?e = "newAICharacter ''e1'' ''grunt'' DEFAULT_AI_CONFIG"
  have a: "isAlive ?e" by (simp add: newAICharacter_def)
  have s: "stateFromCondition ?e = IDLE"
    by (simp add: stateFromCondition_def newAICharacter_def vlength_def)
  show ?thesis
    using update_recomputes_state[OF a, of "0.016" ALERT] a s
    by (simp add: transitionTo_state)
qed

section \<open>Vision\<close>

text \<open>
  C5. \<open>checkVision\<close> returns not-visible when the distance to the target is more than
  \<open>viewDistance\<close>; otherwise it returns visible exactly when the dot product of the
  forward vector with the normalised direction to the target is at least
  \<open>cos(viewAngle/2)\<close>, or it is at least \<open>cos(peripheralAngle/2)\<close> and the
  distance is less than \<open>viewDistance * 0.5\<close>. The perception update applies the
  test to the agent's forward direction, which is a unit vector. Consequently: a target
  inside the peripheral cone only, at distance at least \<open>viewDistance * 0.5\<close>, is
  not visible; a target whose angle from a unit forward vector is beyond both half
  angles (the two angles of the configuration not being negative) is not visible; and a
  target straight ahead of a unit forward vector, at a positive distance within
  \<open>viewDistance\<close>, is visible.
\<close>

theorem vision_cone_rule:
  "(let d = vlength (subVectors t p); c = dot f (normalize (subVectors t p))
    in checkVision p f t cfg =
         (if d > viewDistance cfg then False
          else (c \<ge> cos (viewAngle cfg / 2) \<or>
                (c \<ge> cos (peripheralAngle cfg / 2) \<and> d < viewDistance cfg * 0.5))) \<and>
       (c < cos (viewAngle cfg / 2) \<and> c \<ge> cos (peripheralAngle cfg / 2) \<and>
          d \<ge> viewDistance cfg * 0.5 \<longrightarrow> \<not> checkVision p f t cfg) \<and>
       (lengthSq f = 1 \<and> 0 \<le> viewAngle cfg \<and> 0 \<le> peripheralAngle cfg \<and>
          viewAngle cfg / 2 < angleTo f (normalize (subVectors t p)) \<and>
          peripheralAngle cfg / 2 < angleTo f (normalize (subVectors t p))
          \<longrightarrow> \<not> checkVision p f t cfg)) \<and>
   (lengthSq f = 1 \<and> 0 < s \<and> s \<le> viewDistance cfg
      \<longrightarrow> checkVision p f (addScaledVector p f s) cfg) \<and>
   lengthSq (getForwardDirection e) = 1 \<and>
   hasLineOfSight (fst (PerceptionSystem_update ps e t tn td)) =
     checkVision (position e) (getForwardDirection e) t (perceptionConfig e)"
proof -
  let ?d = "vlength (subVectors t p)" and ?c = "dot f (normalize (subVectors t p))"
  have rule: "checkVision p f t cfg =
         (if ?d > viewDistance cfg then False
          else (?c \<ge> cos (viewAngle cfg / 2) \<or>
                (?c \<ge> cos (peripheralAngle cfg / 2) \<and> ?d < viewDistance cfg * 0.5)))"
    by (simp add: checkVision_def Let_def)
  have periph: "?c < cos (viewAngle cfg / 2) \<and> ?c \<ge> cos (peripheralAngle cfg / 2) \<and>
          ?d \<ge> viewDistance cfg * 0.5 \<longrightarrow> \<not> checkVision p f t cfg"
    by (simp add: checkVision_def Let_def)
  have beyond: "lengthSq f = 1 \<and> 0 \<le> viewAngle cfg \<and> 0 \<le> peripheralAngle cfg \<and>
          viewAngle cfg / 2 < angleTo f (normalize (subVectors t p)) \<and>
          peripheralAngle cfg / 2 < angleTo f (normalize (subVectors t p))
          \<longrightarrow> \<not> checkVision p f t cfg"
  proof (intro impI, elim conjE)
    assume a: "lengthSq f = 1" "0 \<le> viewAngle cfg" "0 \<le> peripheralAngle cfg"
      "viewAngle cfg / 2 < angleTo f (normalize (subVectors t p))"
      "peripheralAngle cfg / 2 < angleTo f (normalize (subVectors t p))"
    have "?c < cos (viewAngle cfg / 2)" using a by (intro beyond_half_angle) simp_all
    moreover have "?c < cos (peripheralAngle cfg / 2)" using a by (intro beyond_half_angle) simp_all
    ultimately show "\<not> checkVision p f t cfg" by (simp add: checkVision_def Let_def)
  qed
  have ahead: "lengthSq f = 1 \<and> 0 < s \<and> s \<le> viewDistance cfg
      \<longrightarrow> checkVision p f (addScaledVector p f s) cfg"
  proof (intro impI, elim conjE)
    assume a: "lengthSq f = 1" "0 < s" "s \<le> viewDistance cfg"
    show "checkVision p f (addScaledVector p f s) cfg"
      using a straight_ahead[OF a(1) a(2), of p]
      by (simp add: checkVision_def Let_def dot_self)
  qed
  have upd: "hasLineOfSight (fst (PerceptionSystem_update ps e t tn td)) =
     checkVision (position e) (getForwardDirection e) t (perceptionConfig e)"
    by (simp add: PerceptionSystem_update_def Let_def)
  show ?thesis
    using rule periph beyond ahead getForwardDirection_unit[of e] upd by (simp add: Let_def)
qed
lemma ev_behind: "angleTo (vec 0 0 1) (normalize (subVectors (vec 0 0 (- 1)) (vec 0 0 0))) = pi"
  by (simp add: angleTo_def normalize_def subVectors_def vec_def vlength_def lengthSq_def dot_def clamp_def Let_def)

lemma ev_side: "normalize (subVectors (vec 1 0 0) (vec 0 0 0)) = vec 1 0 0"
   "vlength (subVectors (vec 1 0 0) (vec 0 0 0)) = 1"
  by (simp_all add: normalize_def subVectors_def vec_def vlength_def lengthSq_def Let_def)

lemma dot_vec: "dot (vec a b c) (vec a' b' c') = a * a' + b * b' + c * c'"
  by (simp add: dot_def vec_def)

lemma cos_quarter_pos: "0 < cos (pi / 2 / 2)"
  by (rule cos_gt_zero) (use pi_gt_zero in simp_all)

theorem vision_cone_rule_witness:
  "(lengthSq (vec 0 0 1) = 1 \<and> (0::real) < 10 \<and> 10 \<le> viewDistance DEFAULT_PERCEPTION_CONFIG \<and>
    checkVision (vec 0 0 0) (vec 0 0 1) (addScaledVector (vec 0 0 0) (vec 0 0 1) 10)
      DEFAULT_PERCEPTION_CONFIG) \<and>
   (0 \<le> viewAngle DEFAULT_PERCEPTION_CONFIG \<and> 0 \<le> peripheralAngle DEFAULT_PERCEPTION_CONFIG \<and>
    viewAngle DEFAULT_PERCEPTION_CONFIG / 2
      < angleTo (vec 0 0 1) (normalize (subVectors (vec 0 0 (- 1)) (vec 0 0 0))) \<and>
    peripheralAngle DEFAULT_PERCEPTION_CONFIG / 2
      < angleTo (vec 0 0 1) (normalize (subVectors (vec 0 0 (- 1)) (vec 0 0 0))) \<and>
    \<not> checkVision (vec 0 0 0) (vec 0 0 1) (vec 0 0 (- 1)) DEFAULT_PERCEPTION_CONFIG) \<and>
   (dot (vec 0 0 1) (normalize (subVectors (vec 1 0 0) (vec 0 0 0)))
      < cos (viewAngle widePeripheralConfig / 2) \<and>
    dot (vec 0 0 1) (normalize (subVectors (vec 1 0 0) (vec 0 0 0)))
      \<ge> cos (peripheralAngle widePeripheralConfig / 2) \<and>
    vlength (subVectors (vec 1 0 0) (vec 0 0 0)) \<ge> viewDistance widePeripheralConfig * 0.5 \<and>
    \<not> checkVision (vec 0 0 0) (vec 0 0 1) (vec 1 0 0) widePeripheralConfig)"
proof -
  have h1: "lengthSq (vec 0 0 1) = 1 \<and> (0::real) < 10 \<and> 10 \<le> viewDistance DEFAULT_PERCEPTION_CONFIG"
    by (simp add: DEFAULT_PERCEPTION_CONFIG_def)
  have c1: "checkVision (vec 0 0 0) (vec 0 0 1) (addScaledVector (vec 0 0 0) (vec 0 0 1) 10)
      DEFAULT_PERCEPTION_CONFIG"
    using h1 vision_cone_rule[of "vec 0 0 0" "vec 0 0 0" "vec 0 0 1" DEFAULT_PERCEPTION_CONFIG 10]
    unfolding Let_def by blast
  have h2: "lengthSq (vec 0 0 1) = 1 \<and>
    0 \<le> viewAngle DEFAULT_PERCEPTION_CONFIG \<and> 0 \<le> peripheralAngle DEFAULT_PERCEPTION_CONFIG \<and>
    viewAngle DEFAULT_PERCEPTION_CONFIG / 2
      < angleTo (vec 0 0 1) (normalize (subVectors (vec 0 0 (- 1)) (vec 0 0 0))) \<and>
    peripheralAngle DEFAULT_PERCEPTION_CONFIG / 2
      < angleTo (vec 0 0 1) (normalize (subVectors (vec 0 0 (- 1)) (vec 0 0 0)))"
    using pi_gt_zero by (simp add: ev_behind DEFAULT_PERCEPTION_CONFIG_def)
  have c2: "\<not> checkVision (vec 0 0 0) (vec 0 0 1) (vec 0 0 (- 1)) DEFAULT_PERCEPTION_CONFIG"
    using h2 vision_cone_rule[of "vec 0 0 (- 1)" "vec 0 0 0" "vec 0 0 1" DEFAULT_PERCEPTION_CONFIG 1]
    unfolding Let_def by blast
  have h3: "dot (vec 0 0 1) (normalize (subVectors (vec 1 0 0) (vec 0 0 0)))
      < cos (viewAngle widePeripheralConfig / 2) \<and>
    dot (vec 0 0 1) (normalize (subVectors (vec 1 0 0) (vec 0 0 0)))
      \<ge> cos (peripheralAngle widePeripheralConfig / 2) \<and>
    vlength (subVectors (vec 1 0 0) (vec 0 0 0)) \<ge> viewDistance widePeripheralConfig * 0.5"
    using cos_quarter_pos
    by (simp add: ev_side widePeripheralConfig_def DEFAULT_PERCEPTION_CONFIG_def dot_vec)
  have c3: "\<not> checkVision (vec 0 0 0) (vec 0 0 1) (vec 1 0 0) widePeripheralConfig"
    using h3 vision_cone_rule[of "vec 1 0 0" "vec 0 0 0" "vec 0 0 1" widePeripheralConfig 1]
    unfolding Let_def by blast
  show ?thesis using h1 c1 h2 c2 h3 c3 by blast
qed

section \<open>Cover selection\<close>

lemma findBestCover_no_hysteresis:
  "findBestCover spots e t cs = findBestCover spots e t None"
  by (simp add: findBestCover_def js_less_def js_minus_def spot_score_def Let_def
           split: list.splits option.splits)

lemma scoreCover_coverA: "scoreCover coverA occupant (vec 0 0 (- 1)) = 0.45"
  by (simp add: scoreCover_def coverA_def occupant_def newAICharacter_def distanceTo_def
        subVectors_def vec_def vlength_def lengthSq_def normalize_def angleTo_def Let_def)

lemma scoreCover_coverB: "scoreCover coverB occupant (vec 0 0 (- 1)) = 0.53"
  using pi_gt_zero
  by (simp add: scoreCover_def coverB_def occupant_def newAICharacter_def distanceTo_def
        subVectors_def vec_def vlength_def lengthSq_def normalize_def angleTo_def dot_def
        clamp_def Let_def)

lemma available_AB: "getAvailableCovers [coverA, coverB] occupant = [coverA, coverB]"
  by (simp add: getAvailableCovers_def coverA_def coverB_def occupant_def newAICharacter_def
        distanceTo_def subVectors_def vec_def vlength_def lengthSq_def Let_def)

text \<open>
  C1. The claim is that an agent that occupies a cover spot keeps it whenever the best
  candidate scores less than 0.2 above it. The comparison in \<open>findBestCover\<close> reads
  \<open>bestCover.score\<close> from the spot, not from the scored pair, so it compares NaN with
  0.2 and never holds: the occupied spot is never kept
  (\<open>findBestCover_no_hysteresis\<close>). Here the occupied spot scores 0.45 and the
  best candidate 0.53, a margin of 0.08, and \<open>findBestCover\<close> returns the candidate.
\<close>

theorem findBestCover_switches_below_margin:
  "currentCover (coverState occupant) = Some coverA \<and>
   scoreCover coverA occupant (vec 0 0 (- 1)) = 0.45 \<and>
   scoreCover coverB occupant (vec 0 0 (- 1)) = 0.53 \<and>
   findBestCover [coverA, coverB] occupant (vec 0 0 (- 1)) (Some (coverState occupant))
     = Some coverB \<and>
   coverB \<noteq> coverA"
proof -
  have cur: "currentCover (coverState occupant) = Some coverA" by (simp add: occupant_def)
  have "findBestCover [coverA, coverB] occupant (vec 0 0 (- 1)) (Some (coverState occupant))
        = Some coverB"
    by (simp add: findBestCover_def available_AB scoreCover_coverA scoreCover_coverB cur
          js_less_def js_minus_def spot_score_def Let_def)
  moreover have "coverB \<noteq> coverA" by (simp add: coverA_def coverB_def)
  moreover note cur
  ultimately show ?thesis using scoreCover_coverA scoreCover_coverB by simp
qed

section \<open>Priority and the sorted array\<close>

lemma getPriority_throws: "getPriority m e = Inl TypeError"
  by (simp add: getPriority_def mgr_AIState_def bindE_def)

lemma comparePriority_throws: "comparePriority m a b = Inl TypeError"
  by (simp add: comparePriority_def getPriority_throws bindE_def)



lemma sortBy_all_throw:
  assumes "\<And>x y. cmp x y = Inl e"
  shows "sortBy cmp xs = (if length xs \<le> 1 then Inr xs else Inl e)"
proof (induction xs)
  case Nil
  show ?case by simp
next
  case (Cons x xs)
  show ?case
  proof (cases xs)
    case Nil
    then show ?thesis by (simp add: bindE_def)
  next
    case outer: (Cons y ys)
    show ?thesis
    proof (cases ys)
      case Nil
      with outer Cons.IH show ?thesis by (simp add: bindE_def assms)
    next
      case (Cons z zs)
      with outer Cons.IH show ?thesis by (simp add: bindE_def)
    qed
  qed
qed

lemma sortEnemiesByPriority_cases:
  "sortEnemiesByPriority m =
     (if length (enemies m) \<le> 1 then Inr (map snd (enemies m)) else Inl TypeError)"
  using sortBy_all_throw[of "comparePriority m" TypeError "map snd (enemies m)"]
  by (simp add: sortEnemiesByPriority_def comparePriority_throws)

lemma update_throws:
  assumes "2 \<le> length (enemies m)"
  shows "processBatch host dt m = Inl (TypeError, m\<lparr>clockCalls := clockCalls m + 1\<rparr>)"
    and "processedCount host dt m = 0"
    and "AIManager_update host dt m = Inl (TypeError, m\<lparr>clockCalls := clockCalls m + 1\<rparr>)"
proof -
  show p: "processBatch host dt m = Inl (TypeError, m\<lparr>clockCalls := clockCalls m + 1\<rparr>)"
    using assms by (simp add: processBatch_def sortEnemiesByPriority_cases Let_def)
  show "processedCount host dt m = 0" by (simp add: processedCount_def p)
  show "AIManager_update host dt m = Inl (TypeError, m\<lparr>clockCalls := clockCalls m + 1\<rparr>)"
    by (simp add: AIManager_update_def p)
qed

text \<open>
  C6. The claim is that the priority of an agent is 0, plus 3 in COMBAT or CHASE, plus
  2 in ALERT, plus 1 below 30% health, plus the proximity term, and that agents are
  processed in descending order of it. \<open>getPriority\<close> is written to compute this sum,
  but it reads \<open>AIState.COMBAT\<close> through an import that AICharacter.ts does not
  export: for every agent it throws a TypeError instead of returning a score. With two
  agents registered the sort calls it, so \<open>update\<close> throws before the batch loop: no
  order is computed and no agent is processed.
\<close>

theorem getPriority_throws_for_every_agent:
  "getPriority m e = Inl TypeError \<and>
   getPriority twoAgents (agentNear\<lparr>state := COMBAT\<rparr>) = Inl TypeError \<and>
   sortEnemiesByPriority twoAgents = Inl TypeError \<and>
   processedCount quietHost 0.016 twoAgents = 0 \<and>
   AIManager_update quietHost 0.016 twoAgents =
     Inl (TypeError, twoAgents\<lparr>clockCalls := 1\<rparr>)"
proof -
  have l: "2 \<le> length (enemies twoAgents)" "clockCalls twoAgents = 0"
    by (simp_all add: twoAgents_def newAIManager_def)
  have "sortEnemiesByPriority twoAgents = Inl TypeError"
    using l by (simp add: sortEnemiesByPriority_cases)
  then show ?thesis
    using update_throws(2,3)[OF l(1), of quietHost "0.016"] l(2)
    by (simp add: getPriority_throws)
qed

section \<open>The batch loop and the cursor\<close>









text \<open>As given, the group-alert pass changes nothing: it returns or throws with the
  manager it was given.\<close>

lemma alertOne_final: "finalState (alertOne host src a m) = m"
  by (simp add: alertOne_def finalState_def mgr_AIState_def Let_def)

lemma forEachE_final:
  assumes "\<And>x s. finalState (f x s) = s"
  shows "finalState (forEachE f xs s) = s"
proof (induction xs)
  case Nil
  show ?case by (simp add: finalState_def)
next
  case (Cons x xs)
  show ?case
  proof (cases "f x s")
    case (Inl t)
    with assms[of x s] show ?thesis by (simp add: finalState_def)
  next
    case (Inr s')
    with assms[of x s] have "s' = s" by (simp add: finalState_def)
    with Inr Cons show ?thesis by simp
  qed
qed

lemma alertNearbyEnemies_final: "finalState (alertNearbyEnemies host src m) = m"
  unfolding alertNearbyEnemies_def by (rule forEachE_final) (rule alertOne_final)

lemma groupStep_final: "finalState (groupStep host a m) = m"
  by (simp add: groupStep_def alertNearbyEnemies_final) (simp add: finalState_def)

lemma updateGroupAI_final: "finalState (updateGroupAI host m) = m"
  unfolding updateGroupAI_def by (rule forEachE_final) (rule groupStep_final)














section \<open>Perception memory\<close>


lemma near_sees:
  "checkVision (position agentNear) (getForwardDirection agentNear) (vec 0 0 1)
     (perceptionConfig agentNear)"
  by (simp add: checkVision_def agentNear_def newAICharacter_def getForwardDirection_def
        DEFAULT_AI_CONFIG_def DEFAULT_PERCEPTION_CONFIG_def subVectors_def vec_def
        vlength_def lengthSq_def normalize_def dot_def Let_def)

lemma near_result:
  "hasLineOfSight (fst (PerceptionSystem_update ps agentNear (vec 0 0 1) t t'))"
  "lastSeenTime (snd (PerceptionSystem_update ps agentNear (vec 0 0 1) t t')) = t"
  using near_sees by (simp_all add: PerceptionSystem_update_def Let_def)




lemma update_perception [simp]: "perception (update dt e) = perception e"
  by (simp add: update_def updateState_def rotateTowardTarget_def Let_def)

lemma moveToward_perception [simp]: "perception (moveToward t dt s e) = perception e"
  by (simp add: moveToward_def Let_def)

lemma setTargetCover_perception [simp]: "perception (setTargetCover c e) = perception e"
  by (simp add: setTargetCover_def)

lemma leaveCover_perception [simp]: "perception (leaveCover e) = perception e"
  by (simp add: leaveCover_def)

lemma moveToCover_perception [simp]: "perception (moveToCover e) = perception e"
  by (simp add: moveToCover_def Let_def split: option.splits)

lemma checkCoverStatus_perception [simp]:
  "perception (checkCoverStatus spots e t) = perception e"
  by (simp add: checkCoverStatus_def Let_def split: option.splits)

lemma CoverSystem_update_perception [simp]:
  "perception (CoverSystem_update spots e t r) = perception e"
  by (simp add: CoverSystem_update_def Let_def split: option.splits)



























section \<open>The group alert\<close>

lemma squad_facts:
  "agents squad 0 = spotter" "agents squad (Suc 0) = sentry"
  "enemies squad = [(''near'', 0), (''sentry'', Suc 0)]"
  by (simp_all add: squad_def newAIManager_def)

lemma spotter_facts:
  "isAlive spotter" "eid spotter = ''near''" "position spotter = vec 0 0 0"
  "(case perception spotter of None \<Rightarrow> False | Some p \<Rightarrow> hasLineOfSight p)"
  by (simp_all add: spotter_def agentNear_def[symmetric] near_result)
    (simp_all add: agentNear_def newAICharacter_def)

lemma sentry_facts:
  "isAlive sentry" "eid sentry = ''sentry''" "position sentry = vec 0 0 2"
  "state sentry = IDLE" "alertTarget sentry = None"
  by (simp_all add: sentry_def newAICharacter_def DEFAULT_AI_CONFIG_def)

lemma sentry_near_spotter: "distanceTo (position sentry) (position spotter) = 2"
proof -
  have "sqrt 4 = sqrt (2 * 2)" by simp
  also have "\<dots> = 2" by simp
  finally show ?thesis
    by (simp add: sentry_facts spotter_facts distanceTo_def subVectors_def vec_def
          vlength_def lengthSq_def)
qed

text \<open>
  C8. The claim is that the group-alert pass, when a live agent has line of sight, moves
  the nearby live agents in state IDLE or PATROL to ALERT and gives them the alert
  target, and leaves agents in other states as they are. \<open>alertNearbyEnemies\<close> is
  written to call \<open>transitionTo(AIState.ALERT)\<close>, but the argument reads
  \<open>AIState\<close> through the import that AICharacter.ts does not export (see C6): at the
  first live agent within 30 units of the source the pass throws a TypeError before
  \<open>transitionTo\<close> is called. Whatever the registry, the pass leaves the manager as it
  found it; here a live IDLE agent two units from an agent with line of sight is still
  IDLE, without an alert target, and the pass has thrown.
\<close>

theorem group_alert_throws_before_alerting:
  "finalState (updateGroupAI host m) = m \<and>
   isAlive spotter \<and> map_option hasLineOfSight (perception spotter) = Some True \<and>
   isAlive sentry \<and> state sentry = IDLE \<and>
   distanceTo (position sentry) (position spotter) < 30 \<and>
   agents squad 0 = spotter \<and> agents squad 1 = sentry \<and>
   updateGroupAI quietHost squad = Inl (TypeError, squad) \<and>
   state (agents (finalState (updateGroupAI quietHost squad)) 1) = IDLE \<and>
   alertTarget (agents (finalState (updateGroupAI quietHost squad)) 1) = None"
proof -
  have a0: "alertOne quietHost 0 0 squad = Inr squad"
    by (simp add: alertOne_def squad_facts)
  have a1: "alertOne quietHost 0 (Suc 0) squad = Inl (TypeError, squad)"
    using sentry_near_spotter
    by (simp add: alertOne_def squad_facts sentry_facts spotter_facts mgr_AIState_def)
  have n: "alertNearbyEnemies quietHost 0 squad = Inl (TypeError, squad)"
    by (simp add: alertNearbyEnemies_def squad_facts a0 a1)
  have g: "updateGroupAI quietHost squad = Inl (TypeError, squad)"
    using spotter_facts by (simp add: updateGroupAI_def groupStep_def squad_facts n)
  have los: "map_option hasLineOfSight (perception spotter) = Some True"
    by (simp add: spotter_def near_result)
  have gen: "finalState (updateGroupAI host m) = m" by (rule updateGroupAI_final)
  show ?thesis
    using los sentry_near_spotter g gen
    by (simp add: squad_facts spotter_facts sentry_facts finalState_def)
qed

end
